theory Spec2Isabelle
  imports Main "HOL-Library.FSet" "HOL-Library.Multiset"
begin

section \<open>Data model\<close>

text \<open>
  A Python \<open>str\<close> is a sequence of Unicode code points; the tokens the program compares
  against contain a non-ASCII letter, so a string is modelled as the list of its code
  points.
\<close>

type_synonym pystr = "nat list"

text \<open>
  The scalar cell values the tabular reader hands over: text, integers, booleans, the
  missing-cell marker (a NaN) and \<open>None\<close>.
\<close>

datatype pyval = PStr pystr | PInt int | PBool bool | PNaN | PNone

record text_group =
  "text" :: pystr
  text1 :: pyval
  text2 :: pystr

record config_group =
  config :: pystr
  subconfig1 :: pystr
  subconfig2 :: pystr

record alarm =
  alarm_id :: int
  name :: pystr
  text_g :: text_group
  config_g :: config_group

section \<open>Python built-ins used by the program\<close>

datatype py_error = FileNotFoundError | ValueError | TypeError | KeyError | OutraExcecao

text \<open>Sequencing of fallible steps: the first exception raised ends the computation.\<close>

definition entao :: "py_error + 'a \<Rightarrow> ('a \<Rightarrow> py_error + 'b) \<Rightarrow> py_error + 'b" where
  "entao r f = (case r of Inl e \<Rightarrow> Inl e | Inr v \<Rightarrow> f v)"

definition cps :: "string \<Rightarrow> pystr" where
  "cps s = map of_char s"

text \<open>\<open>str.isspace\<close> on one code point (the Unicode whitespace characters).\<close>

definition espaco :: "nat \<Rightarrow> bool" where
  "espaco c = ((9 \<le> c \<and> c \<le> 13) \<or> (28 \<le> c \<and> c \<le> 32) \<or> c = 133 \<or> c = 160 \<or> c = 5760
     \<or> (8192 \<le> c \<and> c \<le> 8202) \<or> c = 8232 \<or> c = 8233 \<or> c = 8239 \<or> c = 8287 \<or> c = 12288)"

definition py_strip :: "pystr \<Rightarrow> pystr" where
  "py_strip s = rev (dropWhile espaco (rev (dropWhile espaco s)))"

text \<open>
  \<open>str.lower\<close> on the Basic Latin and Latin-1 Supplement blocks (U+0000 to U+00FF), which
  hold every letter of the two tokens; code points beyond U+00FF are left as they are.
\<close>

definition minuscula :: "nat \<Rightarrow> nat" where
  "minuscula c =
     (if 65 \<le> c \<and> c \<le> 90 then c + 32
      else if 192 \<le> c \<and> c \<le> 222 \<and> c \<noteq> 215 then c + 32
      else c)"

definition py_lower :: "pystr \<Rightarrow> pystr" where
  "py_lower s = map minuscula s"

fun digitos :: "nat \<Rightarrow> pystr" where
  "digitos n = (if n < 10 then [48 + n] else digitos (n div 10) @ [48 + n mod 10])"

declare digitos.simps [simp del]

definition py_str :: "pyval \<Rightarrow> pystr" where
  "py_str v =
     (case v of
        PStr s \<Rightarrow> s
      | PInt i \<Rightarrow> (if i < 0 then 45 # digitos (nat (- i)) else digitos (nat i))
      | PBool b \<Rightarrow> (if b then cps ''True'' else cps ''False'')
      | PNaN \<Rightarrow> cps ''nan''
      | PNone \<Rightarrow> cps ''None'')"

definition digito :: "nat \<Rightarrow> bool" where
  "digito c = (48 \<le> c \<and> c \<le> 57)"

text \<open>
  \<open>int\<close> on a string first rewrites it to ASCII: a string with a code point above
  U+007F has each code point from U+007F on replaced, a Unicode space by the ASCII space
  and a decimal digit of any script by the ASCII digit of its value, and is cut after the
  first code point that is neither (marked \<open>?\<close>); an ASCII string is taken as it is. The
  decimal digits of Unicode come in runs of ten, listed by their zeros.
\<close>

definition zeros_decimais :: "nat list" where
  "zeros_decimais =
     [48, 1632, 1776, 1984, 2406, 2534, 2662, 2790, 2918, 3046, 3174, 3302, 3430, 3558,
      3664, 3792, 3872, 4160, 4240, 6112, 6160, 6470, 6608, 6784, 6800, 6992, 7088, 7232,
      7248, 42528, 43216, 43264, 43472, 43504, 43600, 44016, 65296, 66720, 68912, 69734,
      69872, 69942, 70096, 70384, 70736, 70864, 71248, 71360, 71472, 71904, 72016, 72784,
      73040, 73120, 92768, 92864, 93008, 120782, 120792, 120802, 120812, 120822, 123200,
      123632, 125264, 130032]"

definition valor_decimal :: "nat \<Rightarrow> nat option" where
  "valor_decimal c = map_option (\<lambda>z. c - z) (find (\<lambda>z. z \<le> c \<and> c \<le> z + 9) zeros_decimais)"

fun para_ascii :: "pystr \<Rightarrow> pystr" where
  "para_ascii [] = []"
| "para_ascii (c # cs) =
     (if c < 127 then c # para_ascii cs
      else if espaco c then 32 # para_ascii cs
      else (case valor_decimal c of None \<Rightarrow> [63] | Some d \<Rightarrow> (48 + d) # para_ascii cs))"

text \<open>The whitespace the integer parser skips at both ends: the six ASCII ones.\<close>

definition espaco_ascii :: "nat \<Rightarrow> bool" where
  "espaco_ascii c = ((9 \<le> c \<and> c \<le> 13) \<or> c = 32)"

text \<open>
  The digits of a decimal literal as the parser accepts them: ASCII digits, with single
  underscores allowed between two digits.
\<close>

fun ler_digitos :: "int \<Rightarrow> pystr \<Rightarrow> int option" where
  "ler_digitos acc [] = Some acc"
| "ler_digitos acc [c] = (if digito c then Some (10 * acc + int (c - 48)) else None)"
| "ler_digitos acc (c # d # ds) =
     (if digito c then ler_digitos (10 * acc + int (c - 48)) (d # ds)
      else if c = 95 \<and> digito d then ler_digitos (10 * acc + int (d - 48)) ds
      else None)"

text \<open>
  \<open>int\<close> of a string, base ten: whitespace, an optional sign, the digits, whitespace.
  The interpreter's configurable limit on the number of digits converted is taken at its
  unlimited setting.
\<close>

definition ler_inteiro :: "pystr \<Rightarrow> int option" where
  "ler_inteiro s =
     (let t = (if list_all (\<lambda>c. c < 128) s then s else para_ascii s) in
      case rev (dropWhile espaco_ascii (rev (dropWhile espaco_ascii t))) of
        [] \<Rightarrow> None
      | c # cs \<Rightarrow>
          (if c = 45 then (case cs of [] \<Rightarrow> None
                            | d # ds \<Rightarrow> if digito d then map_option uminus (ler_digitos 0 cs) else None)
           else if c = 43 then (case cs of [] \<Rightarrow> None
                            | d # ds \<Rightarrow> if digito d then ler_digitos 0 cs else None)
           else if digito c then ler_digitos 0 (c # cs)
           else None))"

text \<open>The built-in \<open>int\<close> on a cell value.\<close>

definition py_int :: "pyval \<Rightarrow> py_error + int" where
  "py_int v =
     (case v of
        PStr s \<Rightarrow> (case ler_inteiro s of None \<Rightarrow> Inl ValueError | Some i \<Rightarrow> Inr i)
      | PInt i \<Rightarrow> Inr i
      | PBool b \<Rightarrow> Inr (if b then 1 else 0)
      | PNaN \<Rightarrow> Inl ValueError
      | PNone \<Rightarrow> Inl TypeError)"

text \<open>Truth value of a cell value, as \<open>or\<close> and \<open>if\<close> test it.\<close>

definition py_bool :: "pyval \<Rightarrow> bool" where
  "py_bool v =
     (case v of
        PStr s \<Rightarrow> s \<noteq> []
      | PInt i \<Rightarrow> i \<noteq> 0
      | PBool b \<Rightarrow> b
      | PNaN \<Rightarrow> True
      | PNone \<Rightarrow> False)"

section \<open>Value transform\<close>

definition sim :: pystr where
  "sim = cps ''sim''"

definition nao :: pystr where
  "nao = [110, 227, 111]"

definition transformar_valor_booleano :: "pyval \<Rightarrow> pyval" where
  "transformar_valor_booleano valor =
     (let valor_str = py_lower (py_strip (py_str valor)) in
      if valor_str = sim then PBool True
      else if valor_str = nao then PBool False
      else valor)"

section \<open>Conflict resolution\<close>

text \<open>
  The inner loop of \<open>executar_atualizacao\<close>:
  \<^verbatim>\<open>while id_novo_provisorio in ids_em_uso: id_novo_provisorio += 1\<close>
  over Python's unbounded integers and a finite set.
\<close>

function sondar :: "int fset \<Rightarrow> int \<Rightarrow> int" where
  "sondar ids_em_uso i = (if i |\<in>| ids_em_uso then sondar ids_em_uso (i + 1) else i)"
  by pat_completeness auto
termination
proof (relation "measure (\<lambda>(ids, i). card {x \<in> fset ids. i \<le> x})")
  show "wf (measure (\<lambda>(ids, i). card {x \<in> fset ids. i \<le> x}))"
    by simp
next
  fix ids_em_uso :: "int fset" and i :: int
  assume mem: "i |\<in>| ids_em_uso"
  have "i \<in> {x \<in> fset ids_em_uso. i \<le> x}" and "i \<notin> {x \<in> fset ids_em_uso. i + 1 \<le> x}"
    using mem by simp_all
  moreover have "{x \<in> fset ids_em_uso. i + 1 \<le> x} \<subseteq> {x \<in> fset ids_em_uso. i \<le> x}"
    by auto
  ultimately have "{x \<in> fset ids_em_uso. i + 1 \<le> x} \<subset> {x \<in> fset ids_em_uso. i \<le> x}"
    by blast
  then have "card {x \<in> fset ids_em_uso. i + 1 \<le> x} < card {x \<in> fset ids_em_uso. i \<le> x}"
    by (intro psubset_card_mono) auto
  then show "((ids_em_uso, i + 1), (ids_em_uso, i)) \<in> measure (\<lambda>(ids, i). card {x \<in> fset ids. i \<le> x})"
    by simp
qed

declare sondar.simps [simp del]

text \<open>
  The body of the loop over \<open>novos_alarmes\<close>, with the set of identifiers in use
  threaded through; the result is \<open>alarmes_processados\<close>.
\<close>

definition resolver_um :: "int fset \<Rightarrow> alarm \<Rightarrow> alarm" where
  "resolver_um ids_em_uso alarme_novo =
     (let id_alvo = alarm_id alarme_novo in
      if id_alvo |\<in>| ids_em_uso
      then alarme_novo\<lparr>alarm_id := sondar ids_em_uso id_alvo\<rparr>
      else alarme_novo)"

fun processar :: "int fset \<Rightarrow> alarm list \<Rightarrow> alarm list" where
  "processar ids_em_uso [] = []"
| "processar ids_em_uso (alarme_novo # resto) =
     (let a = resolver_um ids_em_uso alarme_novo
      in a # processar (finsert (alarm_id a) ids_em_uso) resto)"

definition ids_de :: "alarm list \<Rightarrow> int fset" where
  "ids_de alarmes = fset_of_list (map alarm_id alarmes)"

definition lista_final :: "alarm list \<Rightarrow> alarm list \<Rightarrow> alarm list" where
  "lista_final alarmes_existentes novos_alarmes =
     alarmes_existentes @ processar (ids_de alarmes_existentes) novos_alarmes"

text \<open>What the program prints, one constructor per message.\<close>

datatype report =
    YamlNaoEncontrado
  | EncontradosYaml nat
  | YamlListaInvalida
  | ErroLerYaml
  | EncontradosExcel nat
  | ExcelNaoEncontrado
  | ErroDeValor
  | ErroProcessarExcel py_error
  | ColunasFaltantes "pystr list"
  | NenhumAlarmeNovo
  | Conflito int int
  | Salvo nat

text \<open>The conflict lines the loop prints, in processing order.\<close>

fun conflitos :: "int fset \<Rightarrow> alarm list \<Rightarrow> report list" where
  "conflitos ids_em_uso [] = []"
| "conflitos ids_em_uso (alarme_novo # resto) =
     (let a = resolver_um ids_em_uso alarme_novo
      in (if alarm_id alarme_novo |\<in>| ids_em_uso
          then [Conflito (alarm_id alarme_novo) (alarm_id a)] else [])
         @ conflitos (finsert (alarm_id a) ids_em_uso) resto)"

section \<open>Loading the existing collection\<close>

text \<open>
  An item of a list document, as the merge reads it through \<^verbatim>\<open>alarm['alarm_id']\<close>: a
  mapping that is an alarm record of the data model (with its integer identifier), a
  mapping without the key \<open>alarm_id\<close>, or a value that is not a mapping (a scalar, a
  list).
\<close>

datatype item = Registro alarm | SemAlarmId | NaoMapa

text \<open>
  What \<open>yaml.safe_load\<close> finds at the destination path: a list document, the null
  document, a scalar or a mapping.
\<close>

datatype yaml_doc =
    YLista "item list"
  | YNulo
  | YEscalar pyval
  | YMapa "(pystr \<times> pyval) list"

datatype arquivo_yaml = Inexistente | Ilegivel | Conteudo yaml_doc

text \<open>\<open>_carregar_alarmes_yaml\<close> of \<open>transcribe_excel_2_yaml.py\<close>.\<close>

fun carregar_alarmes_yaml :: "arquivo_yaml \<Rightarrow> report list \<times> item list" where
  "carregar_alarmes_yaml Inexistente = ([YamlNaoEncontrado], [])"
| "carregar_alarmes_yaml Ilegivel = ([ErroLerYaml], [])"
| "carregar_alarmes_yaml (Conteudo (YLista alarms)) = ([EncontradosYaml (length alarms)], alarms)"
| "carregar_alarmes_yaml (Conteudo _) = ([YamlListaInvalida], [])"

text \<open>
  \<open>_carregar_alarmes_yaml\<close> of \<open>transcribe_excel_2_yaml_filt.py\<close>, which reads
  \<^verbatim>\<open>yaml.safe_load(f) or []\<close>: a document that tests false is replaced by the empty list
  before the list check.
\<close>

fun doc_verdadeiro :: "yaml_doc \<Rightarrow> bool" where
  "doc_verdadeiro (YLista alarms) = (alarms \<noteq> [])"
| "doc_verdadeiro YNulo = False"
| "doc_verdadeiro (YEscalar v) = py_bool v"
| "doc_verdadeiro (YMapa m) = (m \<noteq> [])"

fun carregar_alarmes_yaml_filt :: "arquivo_yaml \<Rightarrow> report list \<times> item list" where
  "carregar_alarmes_yaml_filt Inexistente = ([YamlNaoEncontrado], [])"
| "carregar_alarmes_yaml_filt Ilegivel = ([ErroLerYaml], [])"
| "carregar_alarmes_yaml_filt (Conteudo d) =
     (case (if doc_verdadeiro d then d else YLista []) of
        YLista alarms \<Rightarrow> ([EncontradosYaml (length alarms)], alarms)
      | _ \<Rightarrow> ([YamlListaInvalida], []))"

section \<open>Candidate ingestion, positional columns\<close>

text \<open>\<open>row[i]\<close> on a row read with \<open>header=None\<close>: the labels are the positions.\<close>

definition celula :: "pyval list \<Rightarrow> nat \<Rightarrow> py_error + pyval" where
  "celula row i = (if i < length row then Inr (row ! i) else Inl KeyError)"

text \<open>
  The body of the loop of \<open>_carregar_alarmes_excel\<close> in \<open>transcribe_excel_2_yaml.py\<close>, in
  the source's order of evaluation.
\<close>

definition montar_alarme :: "pyval list \<Rightarrow> py_error + alarm" where
  "montar_alarme row =
     entao (celula row 3) (\<lambda>c3.
     let valor_text1_processado = transformar_valor_booleano c3 in
     entao (celula row 0) (\<lambda>c0.
     entao (py_int c0) (\<lambda>i.
     entao (celula row 1) (\<lambda>c1.
     entao (celula row 2) (\<lambda>c2.
     entao (celula row 4) (\<lambda>c4.
     entao (celula row 5) (\<lambda>c5.
     entao (celula row 6) (\<lambda>c6.
     entao (celula row 7) (\<lambda>c7.
     Inr \<lparr>alarm_id = i, name = py_str c1,
          text_g = \<lparr>text = py_str c2, text1 = valor_text1_processado, text2 = py_str c4\<rparr>,
          config_g = \<lparr>config = py_str c5, subconfig1 = py_str c6, subconfig2 = py_str c7\<rparr>\<rparr>)))))))))"

fun montar_todos :: "('r \<Rightarrow> py_error + alarm) \<Rightarrow> 'r list \<Rightarrow> py_error + alarm list" where
  "montar_todos f [] = Inr []"
| "montar_todos f (row # rows) =
     entao (f row) (\<lambda>alarm_data. entao (montar_todos f rows) (\<lambda>novos_alarmes.
       Inr (alarm_data # novos_alarmes)))"

text \<open>
  \<open>_carregar_alarmes_excel\<close>: the argument is what \<open>pd.read_excel\<close> gives, the rows or
  the exception it raises; the \<open>except\<close> clauses turn every exception into a report and
  the empty list.
\<close>

definition carregar_alarmes_excel :: "py_error + pyval list list \<Rightarrow> report list \<times> alarm list" where
  "carregar_alarmes_excel leitura =
     (case entao leitura (montar_todos montar_alarme) of
        Inr novos_alarmes \<Rightarrow> ([EncontradosExcel (length novos_alarmes)], novos_alarmes)
      | Inl FileNotFoundError \<Rightarrow> ([ExcelNaoEncontrado], [])
      | Inl e \<Rightarrow> ([ErroProcessarExcel e], []))"

section \<open>Candidate ingestion, named columns\<close>

record mapa =
  col_alarm_id :: pystr
  col_name :: pystr
  col_text :: pystr
  col_text1 :: pystr
  col_text2 :: pystr
  col_config :: pystr
  col_subconfig1 :: pystr
  col_subconfig2 :: pystr

definition mapa_de_colunas :: mapa where
  "mapa_de_colunas =
     \<lparr>col_alarm_id = cps ''ID do Alarme'',
      col_name = cps ''Nome do Alarme'',
      col_text = cps ''Texto Principal'',
      col_text1 = cps ''Habilitado'',
      col_text2 = cps ''A'' @ [231, 227] @ cps ''o Recomendada'',
      col_config = cps ''N'' @ [237] @ cps ''vel de Configura'' @ [231, 227] @ cps ''o'',
      col_subconfig1 = cps ''Sub-Config 1'',
      col_subconfig2 = cps ''Sub-Config 2''\<rparr>"

definition valores :: "mapa \<Rightarrow> pystr list" where
  "valores m = [col_alarm_id m, col_name m, col_text m, col_text1 m, col_text2 m,
                col_config m, col_subconfig1 m, col_subconfig2 m]"

text \<open>
  The sheet read with \<open>header=0, dtype=str\<close> and \<open>fillna('')\<close>: the titles of the first
  line and the rows, every cell a string.
\<close>

record planilha =
  columns :: "pystr list"
  linhas :: "pystr list list"

fun indice :: "pystr list \<Rightarrow> pystr \<Rightarrow> nat option" where
  "indice [] t = None"
| "indice (c # cs) t = (if c = t then Some 0 else map_option Suc (indice cs t))"

definition celula_nomeada :: "pystr list \<Rightarrow> pystr list \<Rightarrow> pystr \<Rightarrow> py_error + pystr" where
  "celula_nomeada cols row t =
     (case indice cols t of
        None \<Rightarrow> Inl KeyError
      | Some i \<Rightarrow> if i < length row then Inr (row ! i) else Inl KeyError)"

definition montar_alarme_filt :: "mapa \<Rightarrow> pystr list \<Rightarrow> pystr list \<Rightarrow> py_error + alarm" where
  "montar_alarme_filt m cols row =
     entao (celula_nomeada cols row (col_alarm_id m)) (\<lambda>c0.
     entao (py_int (PStr c0)) (\<lambda>i.
     entao (celula_nomeada cols row (col_name m)) (\<lambda>c1.
     entao (celula_nomeada cols row (col_text m)) (\<lambda>c2.
     entao (celula_nomeada cols row (col_text1 m)) (\<lambda>c3.
     entao (celula_nomeada cols row (col_text2 m)) (\<lambda>c4.
     entao (celula_nomeada cols row (col_config m)) (\<lambda>c5.
     entao (celula_nomeada cols row (col_subconfig1 m)) (\<lambda>c6.
     entao (celula_nomeada cols row (col_subconfig2 m)) (\<lambda>c7.
     Inr \<lparr>alarm_id = i, name = c1,
          text_g = \<lparr>text = c2, text1 = transformar_valor_booleano (PStr c3), text2 = c4\<rparr>,
          config_g = \<lparr>config = c5, subconfig1 = c6, subconfig2 = c7\<rparr>\<rparr>)))))))))"

definition colunas_faltantes :: "mapa \<Rightarrow> planilha \<Rightarrow> pystr list" where
  "colunas_faltantes m df = filter (\<lambda>col. col \<notin> set (columns df)) (valores m)"

text \<open>
  The \<open>try\<close> body of \<open>_carregar_alarmes_excel\<close> in \<open>transcribe_excel_2_yaml_filt.py\<close>: the
  early \<open>return []\<close> of the column check is the left summand of the inner result.
\<close>

definition corpo_filt :: "mapa \<Rightarrow> planilha \<Rightarrow> py_error + (pystr list + alarm list)" where
  "corpo_filt m df =
     (if colunas_faltantes m df \<noteq> [] then Inr (Inl (colunas_faltantes m df))
      else entao (montar_todos (montar_alarme_filt m (columns df)) (linhas df))
             (\<lambda>novos_alarmes. Inr (Inr novos_alarmes)))"

definition carregar_alarmes_excel_filt ::
  "mapa \<Rightarrow> py_error + planilha \<Rightarrow> report list \<times> alarm list" where
  "carregar_alarmes_excel_filt m leitura =
     (case entao leitura (corpo_filt m) of
        Inr (Inl faltantes) \<Rightarrow> ([ColunasFaltantes faltantes], [])
      | Inr (Inr novos_alarmes) \<Rightarrow> ([EncontradosExcel (length novos_alarmes)], novos_alarmes)
      | Inl FileNotFoundError \<Rightarrow> ([ExcelNaoEncontrado], [])
      | Inl ValueError \<Rightarrow> ([ErroDeValor], [])
      | Inl e \<Rightarrow> ([ErroProcessarExcel e], []))"

section \<open>Persisting and the update as a whole\<close>

text \<open>
  \<open>_salvar_yaml\<close> of \<open>transcribe_excel_2_yaml.py\<close> sorts by identifier (\<open>sorted\<close> is stable)
  before it dumps; the one of \<open>transcribe_excel_2_yaml_filt.py\<close> dumps the list as it is.
  The result is the report and the list handed to \<open>yaml.dump\<close>.
\<close>

definition salvar_yaml :: "alarm list \<Rightarrow> report list \<times> alarm list" where
  "salvar_yaml data = (let data_sorted = sort_key alarm_id data
                       in ([Salvo (length data_sorted)], data_sorted))"

definition salvar_yaml_filt :: "alarm list \<Rightarrow> report list \<times> alarm list" where
  "salvar_yaml_filt data = ([Salvo (length data)], data)"

text \<open>
  The set comprehension \<^verbatim>\<open>{alarm['alarm_id'] for alarm in alarmes_existentes}\<close> reads the
  items in order and raises at the first one it cannot subscript: \<open>KeyError\<close> on a mapping
  without the key, \<open>TypeError\<close> on a value that is not a mapping. When it returns, every
  item is a record.
\<close>

fun registro :: "item \<Rightarrow> py_error + alarm" where
  "registro (Registro a) = Inr a"
| "registro SemAlarmId = Inl KeyError"
| "registro NaoMapa = Inl TypeError"

fun registros :: "item list \<Rightarrow> py_error + alarm list" where
  "registros [] = Inr []"
| "registros (x # xs) =
     entao (registro x) (\<lambda>a. entao (registros xs) (\<lambda>resto. Inr (a # resto)))"

text \<open>
  The outcome of one run: what was printed, the list written to the destination (\<open>None\<close>
  when the run ends without opening the destination for writing), and the exception that
  ended the run, if one escaped (\<open>executar_atualizacao\<close> has no handler of its own).
\<close>

record resultado =
  relatorio :: "report list"
  gravado :: "alarm list option"
  excecao :: "py_error option"

definition executar_atualizacao :: "arquivo_yaml \<Rightarrow> py_error + pyval list list \<Rightarrow> resultado" where
  "executar_atualizacao arq leitura =
     (let (r1, itens) = carregar_alarmes_yaml arq;
          (r2, novos_alarmes) = carregar_alarmes_excel leitura
      in if novos_alarmes = []
         then \<lparr>relatorio = r1 @ r2 @ [NenhumAlarmeNovo], gravado = None, excecao = None\<rparr>
         else (case registros itens of
                 Inl e \<Rightarrow> \<lparr>relatorio = r1 @ r2, gravado = None, excecao = Some e\<rparr>
               | Inr alarmes_existentes \<Rightarrow>
                   (let ids_em_uso = ids_de alarmes_existentes;
                        (r3, escrito) = salvar_yaml (lista_final alarmes_existentes novos_alarmes)
                    in \<lparr>relatorio = r1 @ r2 @ conflitos ids_em_uso novos_alarmes @ r3,
                        gravado = Some escrito, excecao = None\<rparr>)))"

definition executar_atualizacao_filt ::
  "mapa \<Rightarrow> arquivo_yaml \<Rightarrow> py_error + planilha \<Rightarrow> resultado" where
  "executar_atualizacao_filt m arq leitura =
     (let (r1, itens) = carregar_alarmes_yaml_filt arq;
          (r2, novos_alarmes) = carregar_alarmes_excel_filt m leitura
      in if novos_alarmes = []
         then \<lparr>relatorio = r1 @ r2 @ [NenhumAlarmeNovo], gravado = None, excecao = None\<rparr>
         else (case registros itens of
                 Inl e \<Rightarrow> \<lparr>relatorio = r1 @ r2, gravado = None, excecao = Some e\<rparr>
               | Inr alarmes_existentes \<Rightarrow>
                   (let ids_em_uso = ids_de alarmes_existentes;
                        (r3, escrito) =
                          salvar_yaml_filt (lista_final alarmes_existentes novos_alarmes)
                    in \<lparr>relatorio = r1 @ r2 @ conflitos ids_em_uso novos_alarmes @ r3,
                        gravado = Some escrito, excecao = None\<rparr>)))"

text \<open>The destination after a run: rewritten with the dumped list, or left as it was.\<close>

definition destino_depois :: "arquivo_yaml \<Rightarrow> resultado \<Rightarrow> arquivo_yaml" where
  "destino_depois arq res =
     (case gravado res of
        None \<Rightarrow> arq
      | Some escrito \<Rightarrow> Conteudo (YLista (map Registro escrito)))"

section \<open>Example inputs\<close>

text \<open>
  Concrete rows, records and files on which the theorems below are instantiated: a
  positional row and a named-column row with a given identifier cell, and the record both
  produce for the identifier \<open>i\<close>.
\<close>

definition linha_exemplo :: "pyval \<Rightarrow> pyval list" where
  "linha_exemplo c0 =
     [c0, PStr (cps ''Bomba''), PStr (cps ''Falha''), PStr (cps ''Sim''),
      PStr (cps ''Parar''), PStr (cps ''A''), PStr (cps ''B''), PInt 3]"

definition linha_exemplo_filt :: "pystr \<Rightarrow> pystr list" where
  "linha_exemplo_filt c0 =
     [c0, cps ''Bomba'', cps ''Falha'', cps ''Sim'', cps ''Parar'', cps ''A'', cps ''B'', cps ''3'']"

definition alarme_exemplo :: "int \<Rightarrow> alarm" where
  "alarme_exemplo i =
     \<lparr>alarm_id = i, name = cps ''Bomba'',
      text_g = \<lparr>text = cps ''Falha'', text1 = PBool True, text2 = cps ''Parar''\<rparr>,
      config_g = \<lparr>config = cps ''A'', subconfig1 = cps ''B'', subconfig2 = cps ''3''\<rparr>\<rparr>"

definition leitura_exemplo :: "py_error + pyval list list" where
  "leitura_exemplo = Inr [linha_exemplo (PInt 5), linha_exemplo (PStr (cps ''6''))]"

definition planilha_exemplo :: "pystr list \<Rightarrow> py_error + planilha" where
  "planilha_exemplo ids =
     Inr \<lparr>columns = valores mapa_de_colunas, linhas = map linha_exemplo_filt ids\<rparr>"

definition planilha_sem_id :: planilha where
  "planilha_sem_id =
     \<lparr>columns = tl (valores mapa_de_colunas),
      linhas = [tl (linha_exemplo_filt (cps ''abc''))]\<rparr>"

definition linhas_id_invalido :: "pyval list list" where
  "linhas_id_invalido = [linha_exemplo (PInt 5), linha_exemplo (PStr (cps ''abc''))]"

definition planilha_id_invalido :: planilha where
  "planilha_id_invalido =
     \<lparr>columns = valores mapa_de_colunas,
      linhas = [linha_exemplo_filt (cps ''5''), linha_exemplo_filt (cps ''abc'')]\<rparr>"

definition arquivo_mapa :: arquivo_yaml where
  "arquivo_mapa = Conteudo (YMapa [(cps ''alarm_id'', PInt 1)])"

definition arquivo_exemplo :: arquivo_yaml where
  "arquivo_exemplo = Conteudo (YLista [Registro (alarme_exemplo 1), Registro (alarme_exemplo 5)])"

section \<open>Properties of the probe and of the processing loop\<close>

lemma sondar_livre: "sondar ids i |\<notin>| ids"
  by (induction ids i rule: sondar.induct) (subst sondar.simps, simp)

lemma sondar_ge: "i \<le> sondar ids i"
proof (induction ids i rule: sondar.induct)
  case (1 ids i)
  show ?case
  proof (cases "i |\<in>| ids")
    case True
    with 1 have "i + 1 \<le> sondar ids (i + 1)" by simp
    with True show ?thesis by (subst sondar.simps) simp
  next
    case False
    then show ?thesis by (subst sondar.simps) simp
  qed
qed

lemma sondar_ocupados: "i \<le> j \<Longrightarrow> j < sondar ids i \<Longrightarrow> j |\<in>| ids"
proof (induction ids i rule: sondar.induct)
  case (1 ids i)
  show ?case
  proof (cases "i |\<in>| ids")
    case True
    have eq: "sondar ids i = sondar ids (i + 1)"
      using True by (subst sondar.simps) simp
    show ?thesis
    proof (cases "j = i")
      case True
      with \<open>i |\<in>| ids\<close> show ?thesis by simp
    next
      case False
      with 1 True eq show ?thesis by simp
    qed
  next
    case False
    then have "sondar ids i = i" by (subst sondar.simps) simp
    with 1 show ?thesis by simp
  qed
qed

lemma sondar_unico:
  assumes "i \<le> r" and "r |\<notin>| ids" and "\<forall>j. i \<le> j \<and> j < r \<longrightarrow> j |\<in>| ids"
  shows "sondar ids i = r"
proof -
  have a: "sondar ids i |\<notin>| ids" by (rule sondar_livre)
  have b: "i \<le> sondar ids i" by (rule sondar_ge)
  have "\<not> sondar ids i < r" using assms(3) a b by blast
  moreover have "\<not> r < sondar ids i" using sondar_ocupados [of i r ids] assms(1,2) by blast
  ultimately show ?thesis by simp
qed

lemma resolver_um_livre: "alarm_id (resolver_um ids a) |\<notin>| ids"
  by (simp add: resolver_um_def Let_def sondar_livre)

lemma processar_length: "length (processar ids cs) = length cs"
  by (induction cs arbitrary: ids) (simp_all add: Let_def)

lemma processar_livres: "a \<in> set (processar ids cs) \<Longrightarrow> alarm_id a |\<notin>| ids"
proof (induction cs arbitrary: ids)
  case Nil
  then show ?case by simp
next
  case (Cons c cs)
  then show ?case
    by (auto simp: Let_def resolver_um_livre dest: Cons.IH)
qed

lemma processar_distinct: "distinct (map alarm_id (processar ids cs))"
proof (induction cs arbitrary: ids)
  case Nil
  then show ?case by simp
next
  case (Cons c cs)
  then show ?case
    by (auto simp: Let_def dest: processar_livres)
qed

lemma processar_append:
  "processar ids (xs @ ys) =
     processar ids xs @ processar (ids |\<union>| ids_de (processar ids xs)) ys"
proof (induction xs arbitrary: ids)
  case Nil
  then show ?case by (simp add: ids_de_def)
next
  case (Cons x xs)
  then show ?case by (simp add: Let_def ids_de_def)
qed


section \<open>What a run writes\<close>

lemma executar_gravado:
  "gravado (executar_atualizacao arq leitura) =
     (if snd (carregar_alarmes_excel leitura) = [] then None
      else (case registros (snd (carregar_alarmes_yaml arq)) of
              Inl e \<Rightarrow> None
            | Inr E \<Rightarrow> Some (sort_key alarm_id
                (lista_final E (snd (carregar_alarmes_excel leitura))))))"
  by (simp add: executar_atualizacao_def salvar_yaml_def Let_def split: prod.splits sum.splits)

lemma executar_filt_gravado:
  "gravado (executar_atualizacao_filt m arq leitura) =
     (if snd (carregar_alarmes_excel_filt m leitura) = [] then None
      else (case registros (snd (carregar_alarmes_yaml_filt arq)) of
              Inl e \<Rightarrow> None
            | Inr E \<Rightarrow> Some (lista_final E (snd (carregar_alarmes_excel_filt m leitura)))))"
  by (simp add: executar_atualizacao_filt_def salvar_yaml_filt_def Let_def
      split: prod.splits sum.splits)

lemma executar_excecao:
  "excecao (executar_atualizacao arq leitura) =
     (if snd (carregar_alarmes_excel leitura) = [] then None
      else (case registros (snd (carregar_alarmes_yaml arq)) of
              Inl e \<Rightarrow> Some e | Inr E \<Rightarrow> None))"
  by (simp add: executar_atualizacao_def salvar_yaml_def Let_def split: prod.splits sum.splits)

lemma executar_filt_excecao:
  "excecao (executar_atualizacao_filt m arq leitura) =
     (if snd (carregar_alarmes_excel_filt m leitura) = [] then None
      else (case registros (snd (carregar_alarmes_yaml_filt arq)) of
              Inl e \<Rightarrow> Some e | Inr E \<Rightarrow> None))"
  by (simp add: executar_atualizacao_filt_def salvar_yaml_filt_def Let_def
      split: prod.splits sum.splits)

lemma registros_Registro: "registros (map Registro E) = Inr E"
  by (induction E) (simp_all add: entao_def)

section \<open>The example inputs, evaluated\<close>

lemma transformar_Sim: "transformar_valor_booleano (PStr (cps ''Sim'')) = PBool True"
  by (simp add: transformar_valor_booleano_def py_lower_def py_strip_def py_str_def cps_def
      sim_def nao_def espaco_def minuscula_def)

lemma py_str_3: "py_str (PInt 3) = cps ''3''"
  by (simp add: py_str_def digitos.simps cps_def)

lemma py_str_PStr: "py_str (PStr s) = s"
  by (simp add: py_str_def)

lemma py_int_PInt: "py_int (PInt i) = Inr i"
  by (simp add: py_int_def)

lemma py_int_exemplos:
  "py_int (PStr (cps ''5'')) = Inr 5"
  "py_int (PStr (cps ''6'')) = Inr 6"
  "py_int (PStr (cps ''abc'')) = Inl ValueError"
  by (simp_all add: py_int_def ler_inteiro_def cps_def espaco_ascii_def digito_def)

lemma montar_alarme_exemplo:
  "py_int c0 = Inr i \<Longrightarrow> montar_alarme (linha_exemplo c0) = Inr (alarme_exemplo i)"
  by (simp add: montar_alarme_def linha_exemplo_def alarme_exemplo_def celula_def entao_def
      transformar_Sim py_str_3 py_str_PStr)

lemma montar_alarme_erro:
  "py_int c0 = Inl e \<Longrightarrow> montar_alarme (linha_exemplo c0) = Inl e"
  by (simp add: montar_alarme_def linha_exemplo_def celula_def entao_def)

lemma indices_mapa:
  "indice (valores mapa_de_colunas) (col_alarm_id mapa_de_colunas) = Some 0"
  "indice (valores mapa_de_colunas) (col_name mapa_de_colunas) = Some 1"
  "indice (valores mapa_de_colunas) (col_text mapa_de_colunas) = Some 2"
  "indice (valores mapa_de_colunas) (col_text1 mapa_de_colunas) = Some 3"
  "indice (valores mapa_de_colunas) (col_text2 mapa_de_colunas) = Some 4"
  "indice (valores mapa_de_colunas) (col_config mapa_de_colunas) = Some 5"
  "indice (valores mapa_de_colunas) (col_subconfig1 mapa_de_colunas) = Some 6"
  "indice (valores mapa_de_colunas) (col_subconfig2 mapa_de_colunas) = Some 7"
  by (simp_all add: valores_def mapa_de_colunas_def cps_def)

lemma montar_alarme_filt_exemplo:
  "py_int (PStr c0) = Inr i \<Longrightarrow>
   montar_alarme_filt mapa_de_colunas (valores mapa_de_colunas) (linha_exemplo_filt c0)
     = Inr (alarme_exemplo i)"
  by (simp add: montar_alarme_filt_def celula_nomeada_def indices_mapa linha_exemplo_filt_def
      alarme_exemplo_def entao_def transformar_Sim)

lemma montar_alarme_filt_erro:
  "py_int (PStr c0) = Inl e \<Longrightarrow>
   montar_alarme_filt mapa_de_colunas (valores mapa_de_colunas) (linha_exemplo_filt c0) = Inl e"
  by (simp add: montar_alarme_filt_def celula_nomeada_def indices_mapa linha_exemplo_filt_def
      entao_def)

lemma sem_faltantes:
  "colunas_faltantes mapa_de_colunas \<lparr>columns = valores mapa_de_colunas, linhas = ls\<rparr> = []"
  by (simp add: colunas_faltantes_def)

lemma carregar_excel_exemplo:
  "carregar_alarmes_excel leitura_exemplo
     = ([EncontradosExcel 2], [alarme_exemplo 5, alarme_exemplo 6])"
  by (simp add: leitura_exemplo_def carregar_alarmes_excel_def entao_def montar_alarme_exemplo
      py_int_exemplos py_int_PInt)

lemma carregar_excel_filt_exemplo:
  "carregar_alarmes_excel_filt mapa_de_colunas (planilha_exemplo [cps ''5'', cps ''6''])
     = ([EncontradosExcel 2], [alarme_exemplo 5, alarme_exemplo 6])"
  by (simp add: planilha_exemplo_def carregar_alarmes_excel_filt_def corpo_filt_def
      sem_faltantes entao_def montar_alarme_filt_exemplo py_int_exemplos)

lemma carregar_yaml_exemplo:
  "carregar_alarmes_yaml arquivo_exemplo
     = ([EncontradosYaml 2], map Registro [alarme_exemplo 1, alarme_exemplo 5])"
  "carregar_alarmes_yaml_filt arquivo_exemplo
     = ([EncontradosYaml 2], map Registro [alarme_exemplo 1, alarme_exemplo 5])"
  by (simp_all add: arquivo_exemplo_def)



section \<open>The claims\<close>

text \<open>
  C6. When the candidate collection is empty the run writes nothing and the destination
  is left as it was, whatever the existing collection, in both programs.
\<close>

theorem C6_sem_candidatos:
  "(snd (carregar_alarmes_excel leitura) = [] \<longrightarrow>
      gravado (executar_atualizacao arq leitura) = None
      \<and> destino_depois arq (executar_atualizacao arq leitura) = arq)
   \<and> (snd (carregar_alarmes_excel_filt m leitura') = [] \<longrightarrow>
      gravado (executar_atualizacao_filt m arq leitura') = None
      \<and> destino_depois arq (executar_atualizacao_filt m arq leitura') = arq)"
  by (simp add: executar_gravado executar_filt_gravado destino_depois_def)

lemma carregar_excel_vazio:
  "carregar_alarmes_excel (Inr []) = ([EncontradosExcel 0], [])"
  by (simp add: carregar_alarmes_excel_def entao_def)

lemma carregar_excel_filt_vazio:
  "carregar_alarmes_excel_filt mapa_de_colunas (planilha_exemplo []) = ([EncontradosExcel 0], [])"
  by (simp add: planilha_exemplo_def carregar_alarmes_excel_filt_def corpo_filt_def
      sem_faltantes entao_def)

theorem C6_sem_candidatos_witness:
  "snd (carregar_alarmes_excel (Inr [])) = []
   \<and> gravado (executar_atualizacao arquivo_exemplo (Inr [])) = None
   \<and> destino_depois arquivo_exemplo (executar_atualizacao arquivo_exemplo (Inr [])) = arquivo_exemplo
   \<and> snd (carregar_alarmes_excel_filt mapa_de_colunas (planilha_exemplo [])) = []
   \<and> gravado (executar_atualizacao_filt mapa_de_colunas arquivo_exemplo (planilha_exemplo [])) = None
   \<and> destino_depois arquivo_exemplo
        (executar_atualizacao_filt mapa_de_colunas arquivo_exemplo (planilha_exemplo []))
      = arquivo_exemplo"
  using C6_sem_candidatos [of "Inr []" arquivo_exemplo mapa_de_colunas "planilha_exemplo []"]
  by (simp add: carregar_excel_vazio carregar_excel_filt_vazio)

lemma lista_final_distinct:
  assumes dE: "distinct (map alarm_id E)"
  shows "distinct (map alarm_id (lista_final E C))"
proof -
  have livre: "alarm_id a \<notin> set (map alarm_id E)"
    if "a \<in> set (processar (ids_de E) C)" for a
    using processar_livres [OF that] by (simp add: ids_de_def fset_of_list.rep_eq)
  have "set (map alarm_id E) \<inter> set (map alarm_id (processar (ids_de E) C)) = {}"
  proof (rule ccontr)
    assume "set (map alarm_id E) \<inter> set (map alarm_id (processar (ids_de E) C)) \<noteq> {}"
    then obtain x where x1: "x \<in> set (map alarm_id E)"
      and x2: "x \<in> set (map alarm_id (processar (ids_de E) C))"
      by blast
    from x2 obtain a where "a \<in> set (processar (ids_de E) C)" and "x = alarm_id a"
      by auto
    with livre x1 show False by blast
  qed
  with dE show ?thesis
    unfolding lista_final_def map_append distinct_append
    using processar_distinct by blast
qed

lemma sort_key_distinct_ids:
  "distinct (map alarm_id (sort_key alarm_id xs)) = distinct (map alarm_id xs)"
proof -
  have "mset (map alarm_id (sort_key alarm_id xs)) = mset (map alarm_id xs)"
    by simp
  then show ?thesis by (rule mset_eq_imp_distinct_iff)
qed

text \<open>
  C1, as amended. A run writes only when every item of the existing list is a record; when
  the identifiers of these records are pairwise distinct, the identifiers of the list
  written are pairwise distinct, in both programs. The existing records are written as
  they were loaded, so a repeated identifier among them is written again (see the
  counterexample).
\<close>

theorem C1_ids_distintos:
  "(\<forall>d. gravado (executar_atualizacao arq leitura) = Some d \<longrightarrow>
      (\<exists>E. registros (snd (carregar_alarmes_yaml arq)) = Inr E
         \<and> (distinct (map alarm_id E) \<longrightarrow> distinct (map alarm_id d))))
   \<and> (\<forall>d. gravado (executar_atualizacao_filt m arq leitura') = Some d \<longrightarrow>
      (\<exists>E. registros (snd (carregar_alarmes_yaml_filt arq)) = Inr E
         \<and> (distinct (map alarm_id E) \<longrightarrow> distinct (map alarm_id d))))"
  by (auto simp: executar_gravado executar_filt_gravado lista_final_distinct
      sort_key_distinct_ids split: if_splits sum.splits)

lemma processar_exemplo:
  "processar (ids_de [alarme_exemplo 1, alarme_exemplo 5]) [alarme_exemplo 5, alarme_exemplo 6]
     = [alarme_exemplo 6, alarme_exemplo 7]"
  by (simp add: ids_de_def resolver_um_def alarme_exemplo_def sondar.simps)

lemma processar_exemplo_dup:
  "processar (ids_de [alarme_exemplo 1, alarme_exemplo 1]) [alarme_exemplo 5, alarme_exemplo 6]
     = [alarme_exemplo 5, alarme_exemplo 6]"
  by (simp add: ids_de_def resolver_um_def alarme_exemplo_def sondar.simps)

lemma alarm_id_exemplo: "alarm_id (alarme_exemplo i) = i"
  by (simp add: alarme_exemplo_def)

lemma lista_final_exemplo:
  "lista_final [alarme_exemplo 1, alarme_exemplo 5] [alarme_exemplo 5, alarme_exemplo 6]
     = [alarme_exemplo 1, alarme_exemplo 5, alarme_exemplo 6, alarme_exemplo 7]"
  unfolding lista_final_def processar_exemplo by simp

lemma lista_final_exemplo_dup:
  "lista_final [alarme_exemplo 1, alarme_exemplo 1] [alarme_exemplo 5, alarme_exemplo 6]
     = [alarme_exemplo 1, alarme_exemplo 1, alarme_exemplo 5, alarme_exemplo 6]"
  unfolding lista_final_def processar_exemplo_dup by simp

lemma registros_exemplo:
  "registros (snd (carregar_alarmes_yaml arquivo_exemplo))
     = Inr [alarme_exemplo 1, alarme_exemplo 5]"
  "registros (snd (carregar_alarmes_yaml_filt arquivo_exemplo))
     = Inr [alarme_exemplo 1, alarme_exemplo 5]"
  by (simp_all add: carregar_yaml_exemplo entao_def)

lemma gravado_exemplo:
  "gravado (executar_atualizacao arquivo_exemplo leitura_exemplo)
     = Some [alarme_exemplo 1, alarme_exemplo 5, alarme_exemplo 6, alarme_exemplo 7]"
  by (simp add: executar_gravado registros_exemplo carregar_excel_exemplo
      lista_final_exemplo alarm_id_exemplo)

lemma gravado_filt_exemplo:
  "gravado (executar_atualizacao_filt mapa_de_colunas arquivo_exemplo
      (planilha_exemplo [cps ''5'', cps ''6'']))
     = Some [alarme_exemplo 1, alarme_exemplo 5, alarme_exemplo 6, alarme_exemplo 7]"
  by (simp add: executar_filt_gravado registros_exemplo carregar_excel_filt_exemplo
      lista_final_exemplo)

theorem C1_ids_distintos_witness:
  "registros (snd (carregar_alarmes_yaml arquivo_exemplo))
     = Inr [alarme_exemplo 1, alarme_exemplo 5]
   \<and> distinct (map alarm_id [alarme_exemplo 1, alarme_exemplo 5])
   \<and> gravado (executar_atualizacao arquivo_exemplo leitura_exemplo)
       = Some [alarme_exemplo 1, alarme_exemplo 5, alarme_exemplo 6, alarme_exemplo 7]
   \<and> distinct (map alarm_id [alarme_exemplo 1, alarme_exemplo 5, alarme_exemplo 6, alarme_exemplo 7])
   \<and> registros (snd (carregar_alarmes_yaml_filt arquivo_exemplo))
       = Inr [alarme_exemplo 1, alarme_exemplo 5]
   \<and> gravado (executar_atualizacao_filt mapa_de_colunas arquivo_exemplo
                (planilha_exemplo [cps ''5'', cps ''6'']))
       = Some [alarme_exemplo 1, alarme_exemplo 5, alarme_exemplo 6, alarme_exemplo 7]"
proof -
  have d: "distinct (map alarm_id [alarme_exemplo 1, alarme_exemplo 5])"
    by (simp add: alarm_id_exemplo)
  note t = C1_ids_distintos [of arquivo_exemplo leitura_exemplo mapa_de_colunas
      "planilha_exemplo [cps ''5'', cps ''6'']", unfolded registros_exemplo]
  from t gravado_exemplo d
  have "distinct (map alarm_id
      [alarme_exemplo 1, alarme_exemplo 5, alarme_exemplo 6, alarme_exemplo 7])"
    by blast
  with d registros_exemplo gravado_exemplo gravado_filt_exemplo show ?thesis
    by blast
qed

theorem C1_ids_distintos_counterexample:
  "gravado (executar_atualizacao
      (Conteudo (YLista [Registro (alarme_exemplo 1), Registro (alarme_exemplo 1)]))
      leitura_exemplo)
     = Some [alarme_exemplo 1, alarme_exemplo 1, alarme_exemplo 5, alarme_exemplo 6]
   \<and> \<not> distinct (map alarm_id
          [alarme_exemplo 1, alarme_exemplo 1, alarme_exemplo 5, alarme_exemplo 6])"
proof -
  have "registros [Registro (alarme_exemplo 1), Registro (alarme_exemplo 1)]
      = Inr [alarme_exemplo 1, alarme_exemplo 1]"
    by (simp add: entao_def)
  then show ?thesis
    by (simp add: executar_gravado carregar_excel_exemplo lista_final_exemplo_dup
        alarm_id_exemplo)
qed


lemma processar_nth:
  assumes "n < length cs"
  shows "processar ids cs ! n
           = resolver_um (ids |\<union>| ids_de (processar ids (take n cs))) (cs ! n)"
proof -
  have "processar ids cs = processar ids (take n cs @ drop n cs)" by simp
  also have "\<dots> = processar ids (take n cs)
      @ processar (ids |\<union>| ids_de (processar ids (take n cs))) (drop n cs)"
    by (rule processar_append)
  finally have "processar ids cs ! n
      = processar (ids |\<union>| ids_de (processar ids (take n cs))) (drop n cs) ! 0"
    using assms by (simp add: nth_append processar_length)
  moreover have "drop n cs = cs ! n # drop (Suc n) cs"
    using assms by (simp add: Cons_nth_drop_Suc)
  ultimately show ?thesis by (simp add: Let_def)
qed

lemma resolver_um_sonda:
  assumes ocupados: "\<forall>j<m. alarm_id c + int j |\<in>| ids"
    and livre: "alarm_id c + int m |\<notin>| ids"
  shows "resolver_um ids c = (if m = 0 then c else c\<lparr>alarm_id := alarm_id c + int m\<rparr>)"
proof (cases "m = 0")
  case True
  with livre show ?thesis by (simp add: resolver_um_def)
next
  case False
  then have em_uso: "alarm_id c |\<in>| ids" using ocupados by force
  have "\<forall>j. alarm_id c \<le> j \<and> j < alarm_id c + int m \<longrightarrow> j |\<in>| ids"
  proof (intro allI impI)
    fix j assume j: "alarm_id c \<le> j \<and> j < alarm_id c + int m"
    then have "nat (j - alarm_id c) < m" by linarith
    with ocupados have "alarm_id c + int (nat (j - alarm_id c)) |\<in>| ids" by blast
    with j show "j |\<in>| ids" by simp
  qed
  with livre have "sondar ids (alarm_id c) = alarm_id c + int m"
    by (intro sondar_unico) simp_all
  with em_uso False show ?thesis by (simp add: resolver_um_def)
qed

text \<open>
  C3. The candidate at position \<open>n\<close> of the batch requests \<open>k\<close>; the identifiers in use
  when it is processed are those of the existing records and those assigned to the
  candidates before it. If \<open>k, \<dots>, k + m - 1\<close> are in use and \<open>k + m\<close> is free, it is
  assigned \<open>k + m\<close> and nothing else of it changes; with \<open>m = 0\<close> it is kept as it is.
\<close>

theorem C3_sonda:
  assumes "n < length C"
    and "em_uso = ids_de E |\<union>| ids_de (processar (ids_de E) (take n C))"
    and "\<forall>j<m. alarm_id (C ! n) + int j |\<in>| em_uso"
    and "alarm_id (C ! n) + int m |\<notin>| em_uso"
  shows "lista_final E C ! (length E + n) = (C ! n)\<lparr>alarm_id := alarm_id (C ! n) + int m\<rparr>
         \<and> (m = 0 \<longrightarrow> lista_final E C ! (length E + n) = C ! n)"
proof -
  have "lista_final E C ! (length E + n) = processar (ids_de E) C ! n"
    by (simp add: lista_final_def nth_append)
  also have "\<dots> = resolver_um em_uso (C ! n)"
    using assms(1,2) by (simp add: processar_nth)
  also have "\<dots> = (if m = 0 then C ! n else (C ! n)\<lparr>alarm_id := alarm_id (C ! n) + int m\<rparr>)"
    using assms(3,4) by (rule resolver_um_sonda)
  finally show ?thesis by simp
qed

lemma em_uso_exemplo:
  "ids_de [alarme_exemplo 1, alarme_exemplo 5]
     |\<union>| ids_de (processar (ids_de [alarme_exemplo 1, alarme_exemplo 5])
                 (take 1 [alarme_exemplo 5, alarme_exemplo 6]))
   = {|1, 5, 6|}"
  by (auto simp: ids_de_def resolver_um_def alarme_exemplo_def sondar.simps)

theorem C3_sonda_witness:
  "(1::nat) < length [alarme_exemplo 5, alarme_exemplo 6]
   \<and> alarm_id ([alarme_exemplo 5, alarme_exemplo 6] ! 1) + int 0 |\<in>| {|1, 5, 6|}
   \<and> alarm_id ([alarme_exemplo 5, alarme_exemplo 6] ! 1) + int 1 |\<notin>| {|1, 5, 6|}
   \<and> lista_final [alarme_exemplo 1, alarme_exemplo 5] [alarme_exemplo 5, alarme_exemplo 6]
         ! (length [alarme_exemplo 1, alarme_exemplo 5] + 1) = alarme_exemplo 7"
proof -
  have h1: "(1::nat) < length [alarme_exemplo 5, alarme_exemplo 6]"
    by simp
  have h2: "{|1, 5, 6|} = ids_de [alarme_exemplo 1, alarme_exemplo 5]
     |\<union>| ids_de (processar (ids_de [alarme_exemplo 1, alarme_exemplo 5])
                 (take 1 [alarme_exemplo 5, alarme_exemplo 6]))"
    by (simp only: em_uso_exemplo)
  have h3: "\<forall>j<(1::nat). alarm_id ([alarme_exemplo 5, alarme_exemplo 6] ! 1) + int j |\<in>| {|1, 5, 6|}"
    by (simp add: alarm_id_exemplo)
  have h4: "alarm_id ([alarme_exemplo 5, alarme_exemplo 6] ! 1) + int 1 |\<notin>| {|1, 5, 6|}"
    by (simp add: alarm_id_exemplo)
  have "(alarme_exemplo 6)\<lparr>alarm_id := 6 + int 1\<rparr> = alarme_exemplo 7"
    by (simp add: alarme_exemplo_def)
  with C3_sonda [OF h1 h2 h3 h4] h1 h3 h4 show ?thesis
    by (simp add: alarm_id_exemplo)
qed


lemma resolver_um_campos:
  "name (resolver_um ids a) = name a \<and> text_g (resolver_um ids a) = text_g a
   \<and> config_g (resolver_um ids a) = config_g a"
  by (simp add: resolver_um_def Let_def)

lemma processar_campos:
  assumes "i < length cs"
  shows "name (processar ids cs ! i) = name (cs ! i)
         \<and> text_g (processar ids cs ! i) = text_g (cs ! i)
         \<and> config_g (processar ids cs ! i) = config_g (cs ! i)"
  using assms by (simp add: processar_nth resolver_um_campos)

text \<open>
  C9. In the list a run writes, the existing records are present as they were loaded, and
  the processed candidates are the ingested ones in their order, each with its name, text
  group and config group unchanged: only \<open>alarm_id\<close> can differ. The sorting program
  writes these records sorted, the appending program existing records first.
\<close>

theorem C9_campos:
  "(\<forall>d. gravado (executar_atualizacao arq leitura) = Some d \<longrightarrow>
      (\<exists>E. registros (snd (carregar_alarmes_yaml arq)) = Inr E \<and>
        (let C = snd (carregar_alarmes_excel leitura); P = processar (ids_de E) C
         in mset d = mset E + mset P \<and> length P = length C
            \<and> (\<forall>i<length C. name (P ! i) = name (C ! i) \<and> text_g (P ! i) = text_g (C ! i)
                  \<and> config_g (P ! i) = config_g (C ! i)))))
   \<and> (\<forall>d. gravado (executar_atualizacao_filt m arq leitura') = Some d \<longrightarrow>
      (\<exists>E. registros (snd (carregar_alarmes_yaml_filt arq)) = Inr E \<and>
        (let C = snd (carregar_alarmes_excel_filt m leitura'); P = processar (ids_de E) C
         in d = E @ P \<and> length P = length C
            \<and> (\<forall>i<length C. name (P ! i) = name (C ! i) \<and> text_g (P ! i) = text_g (C ! i)
                  \<and> config_g (P ! i) = config_g (C ! i)))))"
  by (auto simp: executar_gravado executar_filt_gravado lista_final_def processar_length
      processar_campos Let_def split: if_splits sum.splits)

theorem C9_campos_witness:
  "gravado (executar_atualizacao arquivo_exemplo leitura_exemplo)
     = Some [alarme_exemplo 1, alarme_exemplo 5, alarme_exemplo 6, alarme_exemplo 7]
   \<and> registros (snd (carregar_alarmes_yaml arquivo_exemplo))
       = Inr [alarme_exemplo 1, alarme_exemplo 5]
   \<and> mset [alarme_exemplo 1, alarme_exemplo 5, alarme_exemplo 6, alarme_exemplo 7]
       = mset [alarme_exemplo 1, alarme_exemplo 5]
         + mset (processar (ids_de [alarme_exemplo 1, alarme_exemplo 5])
                  [alarme_exemplo 5, alarme_exemplo 6])
   \<and> name (processar (ids_de [alarme_exemplo 1, alarme_exemplo 5])
              [alarme_exemplo 5, alarme_exemplo 6] ! 0) = name (alarme_exemplo 5)
   \<and> text_g (processar (ids_de [alarme_exemplo 1, alarme_exemplo 5])
              [alarme_exemplo 5, alarme_exemplo 6] ! 0) = text_g (alarme_exemplo 5)
   \<and> config_g (processar (ids_de [alarme_exemplo 1, alarme_exemplo 5])
              [alarme_exemplo 5, alarme_exemplo 6] ! 0) = config_g (alarme_exemplo 5)
   \<and> gravado (executar_atualizacao_filt mapa_de_colunas arquivo_exemplo
                (planilha_exemplo [cps ''5'', cps ''6'']))
       = Some [alarme_exemplo 1, alarme_exemplo 5, alarme_exemplo 6, alarme_exemplo 7]
   \<and> [alarme_exemplo 1, alarme_exemplo 5, alarme_exemplo 6, alarme_exemplo 7]
       = [alarme_exemplo 1, alarme_exemplo 5]
         @ processar (ids_de [alarme_exemplo 1, alarme_exemplo 5])
             [alarme_exemplo 5, alarme_exemplo 6]"
proof -
  note t = C9_campos [of arquivo_exemplo leitura_exemplo mapa_de_colunas
      "planilha_exemplo [cps ''5'', cps ''6'']",
      unfolded registros_exemplo carregar_excel_exemplo carregar_excel_filt_exemplo
        snd_conv Let_def sum.inject]
  from t [THEN conjunct1, rule_format, OF gravado_exemplo]
  obtain E where e: "[alarme_exemplo 1, alarme_exemplo 5] = E"
    and m: "mset [alarme_exemplo 1, alarme_exemplo 5, alarme_exemplo 6, alarme_exemplo 7]
       = mset E + mset (processar (ids_de E) [alarme_exemplo 5, alarme_exemplo 6])"
    and c: "\<forall>i<length [alarme_exemplo 5, alarme_exemplo 6].
       name (processar (ids_de E) [alarme_exemplo 5, alarme_exemplo 6] ! i)
         = name ([alarme_exemplo 5, alarme_exemplo 6] ! i)
       \<and> text_g (processar (ids_de E) [alarme_exemplo 5, alarme_exemplo 6] ! i)
         = text_g ([alarme_exemplo 5, alarme_exemplo 6] ! i)
       \<and> config_g (processar (ids_de E) [alarme_exemplo 5, alarme_exemplo 6] ! i)
         = config_g ([alarme_exemplo 5, alarme_exemplo 6] ! i)"
    by (elim exE conjE)
  from t [THEN conjunct2, rule_format, OF gravado_filt_exemplo]
  obtain E' where e': "[alarme_exemplo 1, alarme_exemplo 5] = E'"
    and a: "[alarme_exemplo 1, alarme_exemplo 5, alarme_exemplo 6, alarme_exemplo 7]
       = E' @ processar (ids_de E') [alarme_exemplo 5, alarme_exemplo 6]"
    by (elim exE conjE)
  have z: "(0::nat) < length [alarme_exemplo 5, alarme_exemplo 6]"
    by simp
  note c0 = c [rule_format, OF z, unfolded nth_Cons_0, folded e]
  from c0 m [folded e] a [folded e'] gravado_exemplo gravado_filt_exemplo
    registros_exemplo(1)
  show ?thesis by (intro conjI) (elim conjE, assumption)+
qed

lemma lista_final_restrita:
  "filter (\<lambda>a. alarm_id a |\<in>| ids_de E) (lista_final E C) = E"
proof -
  have "filter (\<lambda>a. alarm_id a |\<in>| ids_de E) E = E"
    by (simp add: ids_de_def fset_of_list.rep_eq)
  moreover have "filter (\<lambda>a. alarm_id a |\<in>| ids_de E) (processar (ids_de E) C) = []"
    using processar_livres [of _ "ids_de E" C] by (simp add: filter_empty_conv)
  ultimately show ?thesis by (simp add: lista_final_def)
qed

lemma ordem_preservada_filt:
  "gravado (executar_atualizacao_filt m arq leitura) = Some d \<Longrightarrow>
   \<exists>E. registros (snd (carregar_alarmes_yaml_filt arq)) = Inr E
       \<and> filter (\<lambda>a. alarm_id a |\<in>| ids_de E) d = E"
  by (auto simp: executar_filt_gravado lista_final_restrita split: if_splits sum.splits)

lemma lista_final_exemplo_invertido:
  "lista_final [alarme_exemplo 5, alarme_exemplo 1] [alarme_exemplo 5, alarme_exemplo 6]
     = [alarme_exemplo 5, alarme_exemplo 1, alarme_exemplo 6, alarme_exemplo 7]"
  by (simp add: lista_final_def ids_de_def resolver_um_def alarme_exemplo_def sondar.simps)

text \<open>
  C2, at the input where the sorting program departs from it: the destination holds the
  records 5 and 1 in this order and two candidates are merged. The list written is sorted
  by identifier, so the two existing records come out as 1, 5.
\<close>

theorem C2_ordem_existentes:
  "gravado (executar_atualizacao
      (Conteudo (YLista [Registro (alarme_exemplo 5), Registro (alarme_exemplo 1)]))
      leitura_exemplo)
     = Some [alarme_exemplo 1, alarme_exemplo 5, alarme_exemplo 6, alarme_exemplo 7]
   \<and> filter (\<lambda>a. alarm_id a |\<in>| ids_de [alarme_exemplo 5, alarme_exemplo 1])
        [alarme_exemplo 1, alarme_exemplo 5, alarme_exemplo 6, alarme_exemplo 7]
       = [alarme_exemplo 1, alarme_exemplo 5]
   \<and> [alarme_exemplo 1, alarme_exemplo 5] \<noteq> [alarme_exemplo 5, alarme_exemplo 1]
   \<and> gravado (executar_atualizacao_filt mapa_de_colunas
        (Conteudo (YLista [Registro (alarme_exemplo 5), Registro (alarme_exemplo 1)]))
        (planilha_exemplo [cps ''5'', cps ''6'']))
       = Some [alarme_exemplo 5, alarme_exemplo 1, alarme_exemplo 6, alarme_exemplo 7]"
proof -
  have r: "registros [Registro (alarme_exemplo 5), Registro (alarme_exemplo 1)]
      = Inr [alarme_exemplo 5, alarme_exemplo 1]"
    by (simp add: entao_def)
  have "alarme_exemplo 1 \<noteq> alarme_exemplo 5"
    by (simp add: alarme_exemplo_def)
  with r show ?thesis
    by (simp add: executar_gravado executar_filt_gravado carregar_excel_exemplo
        carregar_excel_filt_exemplo lista_final_exemplo_invertido alarm_id_exemplo ids_de_def)
qed









end
